theory Spec2Isabelle
  imports Complex_Main "HOL-Library.Word"
begin

section \<open>Strings\<close>

text \<open>
  A JavaScript string is a sequence of UTF-16 code units. The handlers only trim strings,
  test them for emptiness and store them, so a list of 16-bit words is enough.
\<close>

type_synonym jsstring = "16 word list"

definition js :: "string \<Rightarrow> jsstring" where
  "js s = map (\<lambda>c. of_nat (of_char c)) s"

text \<open>
  \<^verbatim>\<open>String.prototype.trim\<close> removes WhiteSpace and LineTerminator code points from both
  ends: TAB, LF, VT, FF, CR, SP, NBSP, the Unicode space separators, LS, PS and the byte
  order mark. All of them lie in the basic plane, so the test is on one code unit.
\<close>

definition isWhiteSpace :: "16 word \<Rightarrow> bool" where
  "isWhiteSpace c =
     (c \<in> {0x0009, 0x000A, 0x000B, 0x000C, 0x000D, 0x0020, 0x00A0, 0x1680,
           0x2028, 0x2029, 0x202F, 0x205F, 0x3000, 0xFEFF}
      \<or> (0x2000 \<le> c \<and> c \<le> 0x200A))"

definition trimStart :: "jsstring \<Rightarrow> jsstring" where
  "trimStart s = dropWhile isWhiteSpace s"

definition trimEnd :: "jsstring \<Rightarrow> jsstring" where
  "trimEnd s = rev (dropWhile isWhiteSpace (rev s))"

definition trim :: "jsstring \<Rightarrow> jsstring" where
  "trim s = trimEnd (trimStart s)"

text \<open>The text is blank when every code unit of it is white space (the empty text too).\<close>

definition blank :: "jsstring \<Rightarrow> bool" where
  "blank s = list_all isWhiteSpace s"


section \<open>Types of the frontend (types.ts)\<close>

text \<open>JSON numbers; the handlers never compute with them.\<close>

type_synonym number = real

text \<open>
  \<^verbatim>\<open>AgentType\<close> is a union of six string literals. The values arrive in the backend's JSON,
  so at run time an agent type is whatever string the backend sent.
\<close>

type_synonym AgentType = jsstring

definition orchestrator :: AgentType where "orchestrator = js ''orchestrator''"
definition sales :: AgentType where "sales = js ''sales''"
definition marketing :: AgentType where "marketing = js ''marketing''"
definition technical_support :: AgentType where "technical_support = js ''technical_support''"
definition order_logistics :: AgentType where "order_logistics = js ''order_logistics''"
definition customer_service :: AgentType where "customer_service = js ''customer_service''"

datatype MessageRole = user | assistant | system

datatype SentimentLabel = positive | negative | neutral

record ChatRequest =
  message :: jsstring
  session_id :: "jsstring option"
  voice_input :: "bool option"

record AgentInfo =
  info_agent_type :: AgentType
  confidence :: number

record SentimentInfo =
  sentiment_label :: SentimentLabel
  score :: number

record ChatResponse =
  response :: jsstring
  resp_session_id :: jsstring
  agent_info :: AgentInfo
  sentiment :: "SentimentInfo option"
  response_time_ms :: number
  resp_timestamp :: jsstring
  resp_suggestions :: "jsstring list option"

record Message =
  role :: MessageRole
  content :: jsstring
  timestamp :: jsstring
  agent_type :: "AgentType option"


section \<open>The API client (api.ts)\<close>

text \<open>
  The backend is outside the repository: it is a parameter. A request either resolves with
  the response body or rejects with the error of the HTTP library, which the client lets
  through to its caller.
\<close>

datatype api_error = NetworkError | TimeoutError | StatusError nat

record backend =
  post_chat :: "ChatRequest \<Rightarrow> api_error + ChatResponse"
  delete_conversation :: "jsstring \<Rightarrow> api_error + unit"

definition sendMessage :: "backend \<Rightarrow> ChatRequest \<Rightarrow> api_error + ChatResponse" where
  "sendMessage be request =
     (case post_chat be request of Inl e \<Rightarrow> Inl e | Inr data \<Rightarrow> Inr data)"

definition clearConversation :: "backend \<Rightarrow> jsstring \<Rightarrow> api_error + unit" where
  "clearConversation be sid =
     (case delete_conversation be sid of Inl e \<Rightarrow> Inl e | Inr _ \<Rightarrow> Inr ())"


section \<open>The generator of session identifiers\<close>

text \<open>Modelled from the spec: \<^verbatim>\<open>uuidv4\<close> belongs to the uuid package, which is not under
  src/. The spec has every call issue "a new, different session identifier", an opaque
  token. The model numbers the calls of the generator: \<open>uuidv4 g\<close> is the identifier that
  call number \<open>g\<close> issues, written as the decimal digits of \<open>g\<close>, so that no two calls
  issue the same identifier.\<close>

fun decimal :: "nat \<Rightarrow> nat list" where
  "decimal n = (if n < 10 then [n] else decimal (n div 10) @ [n mod 10])"

definition digitChar :: "nat \<Rightarrow> 16 word" where
  "digitChar d = of_nat (48 + d)"

definition uuidv4 :: "nat \<Rightarrow> jsstring" where
  "uuidv4 g = map digitChar (decimal g)"

text \<open>Reading an identifier back: the number of the call that issued it.\<close>

definition digitValue :: "16 word \<Rightarrow> nat" where
  "digitValue c = unat c - 48"

definition callNumber :: "jsstring \<Rightarrow> nat" where
  "callNumber s = foldl (\<lambda>acc c. 10 * acc + digitValue c) 0 s"


section \<open>The state of the chat interface\<close>

record SpeechRecognition =
  continuous :: bool
  interimResults :: bool
  lang :: jsstring

text \<open>One field for each \<^verbatim>\<open>useState\<close> hook of the component.\<close>

record ChatInterface =
  messages :: "Message list"
  inputValue :: jsstring
  isLoading :: bool
  sessionId :: jsstring
  error :: "jsstring option"
  suggestions :: "jsstring list"
  isRecording :: bool
  recognition :: "SpeechRecognition option"

text \<open>
  What a handler does besides updating the state, in the order it does it: the calls to the
  API client, the focus request on the text area (\<^verbatim>\<open>inputRef.current?.focus()\<close>), the
  calls to the speech recognition device, and the lines written to the console (by their
  first argument).
\<close>

datatype effect =
    ApiSendMessage ChatRequest
  | ApiClearConversation jsstring
  | InputFocus
  | RecognitionStart
  | RecognitionStop
  | ConsoleLog jsstring
  | ConsoleError jsstring

definition initialState :: ChatInterface where
  "initialState =
     \<lparr>messages = [], inputValue = [], isLoading = False, sessionId = [], error = None,
      suggestions = [], isRecording = False, recognition = None\<rparr>"

text \<open>The mount effects: a fresh session identifier, and the speech recognition device
  when the browser has one. \<open>g\<close> is the number of identifiers the generator has issued so
  far.\<close>

definition initSession :: "nat \<Rightarrow> ChatInterface \<Rightarrow> ChatInterface" where
  "initSession g st = (let newSessionId = uuidv4 g in st\<lparr>sessionId := newSessionId\<rparr>)"

definition initRecognition :: "bool \<Rightarrow> ChatInterface \<Rightarrow> ChatInterface" where
  "initRecognition available st =
     (if available
      then st\<lparr>recognition :=
        Some \<lparr>continuous = False, interimResults = False, lang = js ''en-US''\<rparr>\<rparr>
      else st)"


section \<open>The event handlers of the chat interface\<close>

subsection \<open>handleSendMessage\<close>

text \<open>
  The handler reads the state of the render it was created in, returns at once when the
  guard fails, and otherwise updates the state, calls the API client and is suspended until
  the call settles. The model follows these phases: the guard, the state during the call,
  the request, and the continuation once the call has resolved (\<open>Inr\<close>) or rejected
  (\<open>Inl\<close>). The \<^verbatim>\<open>finally\<close> block closes both branches of the continuation.
  \<open>now\<close> is \<^verbatim>\<open>new Date().toISOString()\<close>.
\<close>

definition sendGuard :: "ChatInterface \<Rightarrow> bool" where
  "sendGuard st = (trim (inputValue st) = [] \<or> isLoading st)"

definition sendRequest :: "ChatInterface \<Rightarrow> ChatRequest" where
  "sendRequest st =
     \<lparr>message = trim (inputValue st), session_id = Some (sessionId st), voice_input = None\<rparr>"

definition sendPending :: "jsstring \<Rightarrow> ChatInterface \<Rightarrow> ChatInterface" where
  "sendPending now st =
     (let userMessage = trim (inputValue st);
          st1 = st\<lparr>inputValue := []\<rparr>;
          st2 = st1\<lparr>error := None\<rparr>;
          userMsg = \<lparr>role = user, content = userMessage, timestamp = now, agent_type = None\<rparr>;
          st3 = st2\<lparr>messages := messages st2 @ [userMsg]\<rparr>
      in st3\<lparr>isLoading := True\<rparr>)"

definition sendSettled ::
  "api_error + ChatResponse \<Rightarrow> ChatInterface \<Rightarrow> ChatInterface \<times> effect list" where
  "sendSettled outcome st =
     (let (st', es) =
        (case outcome of
           Inr resp \<Rightarrow>
             (let assistantMsg =
                    \<lparr>role = assistant, content = response resp,
                     timestamp = resp_timestamp resp,
                     agent_type = Some (info_agent_type (agent_info resp))\<rparr>;
                  st1 = st\<lparr>messages := messages st @ [assistantMsg]\<rparr>;
                  st2 = (case resp_suggestions resp of
                           Some ss \<Rightarrow> st1\<lparr>suggestions := ss\<rparr>
                         | None \<Rightarrow> st1)
              in (st2, [ConsoleLog (js ''Response received:'')]))
         | Inl err \<Rightarrow>
             (let st1 = st\<lparr>error := Some (js ''Failed to send message. Please try again.'')\<rparr>;
                  st2 = st1\<lparr>messages := butlast (messages st1)\<rparr>
              in (st2, [ConsoleError (js ''Error sending message:'')])))
      in (st'\<lparr>isLoading := False\<rparr>, es @ [InputFocus]))"

definition handleSendMessage ::
  "backend \<Rightarrow> jsstring \<Rightarrow> ChatInterface \<Rightarrow> ChatInterface \<times> effect list" where
  "handleSendMessage be now st =
     (if sendGuard st then (st, [])
      else
        (let request = sendRequest st;
             (st', es) = sendSettled (sendMessage be request) (sendPending now st)
         in (st', ApiSendMessage request # es)))"

subsection \<open>The text area and its focus\<close>

text \<open>
  The text area is rendered with \<^verbatim>\<open>disabled={isLoading || isRecording}\<close>, and a browser
  ignores a focus request on a disabled control. The page shows a state change only once
  React has rendered it, which it does after the running piece of the handler has returned
  or is suspended. While the call is pending the page therefore shows the state
  \<open>sendPending\<close>, and the updates of the continuation, \<^verbatim>\<open>setIsLoading(false)\<close> among them,
  are not on the page yet when the \<^verbatim>\<open>finally\<close> block asks for the focus.
\<close>

definition textareaDisabled :: "ChatInterface \<Rightarrow> bool" where
  "textareaDisabled st = (isLoading st \<or> isRecording st)"

definition focusGranted :: "ChatInterface \<Rightarrow> effect list \<Rightarrow> bool" where
  "focusGranted rendered es = (InputFocus \<in> set es \<and> \<not> textareaDisabled rendered)"

definition sendFocusRestored :: "backend \<Rightarrow> jsstring \<Rightarrow> ChatInterface \<Rightarrow> bool" where
  "sendFocusRestored be now st =
     focusGranted (sendPending now st) (snd (handleSendMessage be now st))"

subsection \<open>handleSuggestionClick\<close>

definition handleSuggestionClick ::
  "jsstring \<Rightarrow> ChatInterface \<Rightarrow> ChatInterface \<times> effect list" where
  "handleSuggestionClick suggestion st = (st\<lparr>inputValue := suggestion\<rparr>, [InputFocus])"

subsection \<open>handleClearChat\<close>

text \<open>
  \<open>g\<close> is the number of identifiers the generator has issued before the handler runs. A
  string is truthy when it is not empty.
\<close>

definition handleClearChat ::
  "backend \<Rightarrow> nat \<Rightarrow> ChatInterface \<Rightarrow> ChatInterface \<times> effect list" where
  "handleClearChat be g st =
     (if sessionId st \<noteq> [] then
        (case clearConversation be (sessionId st) of
           Inr _ \<Rightarrow>
             (let newSessionId = uuidv4 g
              in (st\<lparr>messages := [], suggestions := [], error := None,
                     sessionId := newSessionId\<rparr>,
                  [ApiClearConversation (sessionId st),
                   ConsoleLog (js ''Chat cleared, new session:'')]))
         | Inl err \<Rightarrow>
             (st, [ApiClearConversation (sessionId st),
                   ConsoleError (js ''Error clearing chat:'')]))
      else (st, []))"

subsection \<open>handleVoiceInput\<close>

text \<open>
  \<^verbatim>\<open>recognition.start()\<close> is called inside a \<^verbatim>\<open>try\<close>; \<open>startThrows\<close> says whether the
  device throws there (it does when a capture is still running, or when it is not allowed).
\<close>

definition handleVoiceInput ::
  "bool \<Rightarrow> ChatInterface \<Rightarrow> ChatInterface \<times> effect list" where
  "handleVoiceInput startThrows st =
     (case recognition st of
        None \<Rightarrow>
          (st\<lparr>error := Some (js (''Voice recognition is not supported in your browser. '' @
                                 ''Please use Chrome, Edge, or Safari.''))\<rparr>, [])
      | Some device \<Rightarrow>
          (if isRecording st then (st\<lparr>isRecording := False\<rparr>, [RecognitionStop])
           else
             (let st1 = st\<lparr>error := None\<rparr>;
                  st2 = st1\<lparr>isRecording := True\<rparr>
              in if startThrows
                 then (st2\<lparr>isRecording := False,
                           error := Some (js ''Failed to start voice recognition. Please try again.'')\<rparr>,
                       [RecognitionStart, ConsoleError (js ''Error starting recognition:'')])
                 else (st2, [RecognitionStart]))))"


section \<open>The message renderer (ChatMessage.tsx)\<close>

record AgentStyle =
  icon :: jsstring
  className :: jsstring
  label :: jsstring

text \<open>The entries of the object literal \<^verbatim>\<open>agentStyles\<close>; each icon is one emoji, two code
  units in UTF-16.\<close>

definition style_sales :: AgentStyle where
  "style_sales = \<lparr>icon = [0xD83D, 0xDED2], className = js ''sales'', label = js ''Sales''\<rparr>"

definition style_marketing :: AgentStyle where
  "style_marketing =
     \<lparr>icon = [0xD83C, 0xDFAF], className = js ''marketing'', label = js ''Marketing''\<rparr>"

definition style_technical_support :: AgentStyle where
  "style_technical_support =
     \<lparr>icon = [0xD83D, 0xDD27], className = js ''technicalSupport'', label = js ''Tech Support''\<rparr>"

definition style_order_logistics :: AgentStyle where
  "style_order_logistics =
     \<lparr>icon = [0xD83D, 0xDCE6], className = js ''orderLogistics'', label = js ''Orders''\<rparr>"

definition style_customer_service :: AgentStyle where
  "style_customer_service =
     \<lparr>icon = [0xD83D, 0xDCAC], className = js ''customerService'',
      label = js ''Customer Service''\<rparr>"

definition style_orchestrator :: AgentStyle where
  "style_orchestrator =
     \<lparr>icon = [0xD83C, 0xDFAD], className = js ''orchestrator'', label = js ''System''\<rparr>"

definition agentStyles :: "(jsstring \<times> AgentStyle) list" where
  "agentStyles =
     [(sales, style_sales),
      (marketing, style_marketing),
      (technical_support, style_technical_support),
      (order_logistics, style_order_logistics),
      (customer_service, style_customer_service),
      (orchestrator, style_orchestrator)]"

text \<open>
  \<^verbatim>\<open>agentStyles[agentType]\<close> is a property read on an ordinary object. The key is the
  argument converted to a string (\<^verbatim>\<open>undefined\<close> becomes the string "undefined"). The read
  finds the object's own property of that name, or else the member of that name that every
  ordinary object inherits from \<^verbatim>\<open>Object.prototype\<close>, or else \<^verbatim>\<open>undefined\<close>. The
  inherited members are functions, and \<^verbatim>\<open>__proto__\<close> is the prototype object: all of
  them are truthy, so \<^verbatim>\<open>||\<close> does not replace them. Only \<^verbatim>\<open>undefined\<close> is
  replaced by the customer service entry.
\<close>

definition objectPrototype :: "jsstring list" where
  "objectPrototype =
     map js [''constructor'', ''hasOwnProperty'', ''isPrototypeOf'', ''propertyIsEnumerable'',
             ''toLocaleString'', ''toString'', ''valueOf'', ''__proto__'',
             ''__defineGetter__'', ''__defineSetter__'', ''__lookupGetter__'',
             ''__lookupSetter__'']"

datatype property_value = StyleEntry AgentStyle | PrototypeMember jsstring

definition propertyKey :: "AgentType option \<Rightarrow> jsstring" where
  "propertyKey agentType = (case agentType of None \<Rightarrow> js ''undefined'' | Some t \<Rightarrow> t)"

definition getProperty :: "jsstring \<Rightarrow> property_value option" where
  "getProperty key =
     (case map_of agentStyles key of
        Some style \<Rightarrow> Some (StyleEntry style)
      | None \<Rightarrow> if key \<in> set objectPrototype then Some (PrototypeMember key) else None)"

definition getAgentStyle :: "AgentType option \<Rightarrow> property_value" where
  "getAgentStyle agentType =
     (case getProperty (propertyKey agentType) of
        Some v \<Rightarrow> v
      | None \<Rightarrow> StyleEntry style_customer_service)"


section \<open>Concrete states and backends\<close>

definition exampleResponse :: ChatResponse where
  "exampleResponse =
     \<lparr>response = js ''Your order has shipped.'', resp_session_id = js ''0'',
      agent_info = \<lparr>info_agent_type = order_logistics, confidence = 1\<rparr>,
      sentiment = None, response_time_ms = 120, resp_timestamp = js ''2024-01-01T00:00:01Z'',
      resp_suggestions = None\<rparr>"

definition backendUp :: backend where
  "backendUp = \<lparr>post_chat = (\<lambda>request. Inr exampleResponse),
                 delete_conversation = (\<lambda>sid. Inr ())\<rparr>"

definition backendDown :: backend where
  "backendDown = \<lparr>post_chat = (\<lambda>request. Inl NetworkError),
                   delete_conversation = (\<lambda>sid. Inl NetworkError)\<rparr>"

definition mountedState :: ChatInterface where
  "mountedState = initRecognition True (initSession 0 initialState)"

definition exampleState :: ChatInterface where
  "exampleState = mountedState\<lparr>inputValue := js '' Track my order #12345 ''\<rparr>"

definition exampleNow :: jsstring where
  "exampleNow = js ''2024-01-01T00:00:00Z''"

definition clutteredState :: ChatInterface where
  "clutteredState =
     mountedState\<lparr>messages :=
         [\<lparr>role = user, content = js ''hello'', timestamp = exampleNow, agent_type = None\<rparr>],
       suggestions := [js ''Where is my order?''],
       error := Some (js ''Failed to send message. Please try again.'')\<rparr>"

definition blankState :: ChatInterface where
  "blankState = mountedState\<lparr>inputValue := [0x20, 0x09, 0x0A, 0x3000]\<rparr>"

definition loadingState :: ChatInterface where
  "loadingState = exampleState\<lparr>isLoading := True\<rparr>"

definition suggestingResponse :: ChatResponse where
  "suggestingResponse = exampleResponse\<lparr>resp_suggestions := Some [js ''Anything else?'']\<rparr>"


definition unsupportedState :: ChatInterface where
  "unsupportedState = initRecognition False (initSession 0 initialState)"

definition recordingState :: ChatInterface where
  "recordingState = mountedState\<lparr>isRecording := True\<rparr>"

definition followUpState :: ChatInterface where
  "followUpState = clutteredState\<lparr>inputValue := js ''And my refund?''\<rparr>"

definition backendSuggesting :: backend where
  "backendSuggesting = \<lparr>post_chat = (\<lambda>request. Inr suggestingResponse),
                         delete_conversation = (\<lambda>sid. Inr ())\<rparr>"


section \<open>Facts about the model\<close>

subsection \<open>Trimming\<close>

lemma trim_Nil_iff: "trim s = [] \<longleftrightarrow> blank s"
proof -
  have "dropWhile isWhiteSpace s = [] \<longleftrightarrow> list_all isWhiteSpace s"
    by (simp add: list_all_iff)
  moreover have "dropWhile isWhiteSpace (rev (dropWhile isWhiteSpace s)) = []
      \<longleftrightarrow> dropWhile isWhiteSpace s = []"
  proof (cases "dropWhile isWhiteSpace s")
    case Nil
    then show ?thesis by (simp del: dropWhile_eq_Nil_conv)
  next
    case (Cons x xs)
    then have "\<not> isWhiteSpace x"
      using hd_dropWhile [of isWhiteSpace s] by auto
    with Cons show ?thesis
      by auto
  qed
  ultimately show ?thesis
    by (simp add: trim_def trimStart_def trimEnd_def blank_def)
qed

lemma blank_iff: "blank s \<longleftrightarrow> \<not> (\<exists>c \<in> set s. \<not> isWhiteSpace c)"
  by (simp add: blank_def list_all_iff)

lemma sendGuard_iff: "sendGuard st \<longleftrightarrow> blank (inputValue st) \<or> isLoading st"
  by (simp add: sendGuard_def trim_Nil_iff)

subsection \<open>The generator never repeats an identifier\<close>

declare decimal.simps [simp del]

lemma decimal_digits: "\<forall>d \<in> set (decimal n). d < 10"
proof (induction n rule: decimal.induct)
  case (1 n)
  then show ?case
    by (subst decimal.simps) auto
qed

lemma decimal_not_Nil: "decimal n \<noteq> []"
  by (subst decimal.simps) simp

lemma digitValue_digitChar:
  assumes "d < 10"
  shows "digitValue (digitChar d) = d"
proof -
  have "unat (of_nat (48 + d) :: 16 word) = (48 + d) mod 2 ^ LENGTH(16)"
    by (rule unat_of_nat)
  with assms have "unat (of_nat (48 + d) :: 16 word) = 48 + d"
    by simp
  then show ?thesis
    by (simp only: digitValue_def digitChar_def)
qed

lemma callNumber_snoc:
  "d < 10 \<Longrightarrow> callNumber (s @ [digitChar d]) = 10 * callNumber s + d"
  by (simp add: callNumber_def digitValue_digitChar)

lemma callNumber_uuidv4: "callNumber (uuidv4 g) = g"
  unfolding uuidv4_def
proof (induction g rule: decimal.induct)
  case (1 n)
  show ?case
  proof (cases "n < 10")
    case True
    then show ?thesis
      by (subst decimal.simps) (simp add: callNumber_def digitValue_digitChar)
  next
    case False
    then have "callNumber (map digitChar (decimal (n div 10))) = n div 10"
      using "1.IH" by simp
    with False show ?thesis
      by (subst decimal.simps) (simp add: callNumber_snoc)
  qed
qed

lemma uuidv4_inject: "uuidv4 g = uuidv4 h \<Longrightarrow> g = h"
  by (metis callNumber_uuidv4)

lemma uuidv4_not_Nil: "uuidv4 g \<noteq> []"
  by (simp add: uuidv4_def decimal_not_Nil)

lemma decimal_examples:
  "decimal 0 = [0]"
  "decimal (Suc 0) = [1]"
  by (subst decimal.simps, simp)+

lemma uuidv4_examples:
  "uuidv4 0 = js ''0''"
  "uuidv4 (Suc 0) = js ''1''"
  by (simp_all add: uuidv4_def decimal_examples digitChar_def js_def)

subsection \<open>The phases of handleSendMessage\<close>

lemma messages_sendPending:
  "messages (sendPending now st) =
     messages st @ [\<lparr>role = user, content = trim (inputValue st), timestamp = now, agent_type = None\<rparr>]"
  by (simp add: sendPending_def Let_def)

lemma fields_sendPending:
  "inputValue (sendPending now st) = []"
  "error (sendPending now st) = None"
  "isLoading (sendPending now st) = True"
  "suggestions (sendPending now st) = suggestions st"
  "sessionId (sendPending now st) = sessionId st"
  by (simp_all add: sendPending_def Let_def)

lemma sendSettled_Inr:
  "sendSettled (Inr resp) st =
     ((case resp_suggestions resp of
         Some ss \<Rightarrow> st\<lparr>messages := messages st @
              [\<lparr>role = assistant, content = response resp, timestamp = resp_timestamp resp,
                agent_type = Some (info_agent_type (agent_info resp))\<rparr>], suggestions := ss\<rparr>
       | None \<Rightarrow> st\<lparr>messages := messages st @
              [\<lparr>role = assistant, content = response resp, timestamp = resp_timestamp resp,
                agent_type = Some (info_agent_type (agent_info resp))\<rparr>]\<rparr>)\<lparr>isLoading := False\<rparr>,
      [ConsoleLog (js ''Response received:''), InputFocus])"
  by (simp add: sendSettled_def Let_def split: option.split)

lemma sendSettled_Inl:
  "sendSettled (Inl e) st =
     (st\<lparr>error := Some (js ''Failed to send message. Please try again.''),
         messages := butlast (messages st), isLoading := False\<rparr>,
      [ConsoleError (js ''Error sending message:''), InputFocus])"
  by (simp add: sendSettled_def Let_def)

lemma handleSendMessage_passed:
  "\<not> sendGuard st \<Longrightarrow>
   handleSendMessage be now st =
     (fst (sendSettled (sendMessage be (sendRequest st)) (sendPending now st)),
      ApiSendMessage (sendRequest st) # snd (sendSettled (sendMessage be (sendRequest st)) (sendPending now st)))"
  by (simp add: handleSendMessage_def Let_def split: prod.split)

subsection \<open>The concrete states\<close>

lemma trim_example: "trim (inputValue exampleState) = js ''Track my order #12345''"
  by (simp add: exampleState_def trim_def trimStart_def trimEnd_def isWhiteSpace_def js_def)

lemma example_not_blank: "\<not> blank (inputValue exampleState)"
  using trim_example trim_Nil_iff [of "inputValue exampleState"] by (simp add: js_def)

lemma example_fields:
  "isLoading exampleState = False"
  "messages exampleState = []"
  "sessionId exampleState = uuidv4 0"
  "suggestions exampleState = []"
  "error exampleState = None"
  by (simp_all add: exampleState_def mountedState_def initRecognition_def initSession_def Let_def
      initialState_def)

lemma example_backends:
  "sendMessage backendUp request = Inr exampleResponse"
  "sendMessage backendDown request = Inl NetworkError"
  "clearConversation backendUp sid = Inr ()"
  "clearConversation backendDown sid = Inl NetworkError"
  by (simp_all add: sendMessage_def clearConversation_def backendUp_def backendDown_def)

lemma blankState_blank: "blank (inputValue blankState)"
  by (simp add: blankState_def blank_def isWhiteSpace_def)


lemma mounted_fields:
  "sessionId mountedState = uuidv4 0"
  "recognition mountedState =
     Some \<lparr>continuous = False, interimResults = False, lang = js ''en-US''\<rparr>"
  "isRecording mountedState = False"
  "isLoading mountedState = False"
  "error mountedState = None"
  by (simp_all add: mountedState_def initRecognition_def initSession_def Let_def initialState_def)

lemma cluttered_fields:
  "sessionId clutteredState = uuidv4 0"
  "messages clutteredState =
     [\<lparr>role = user, content = js ''hello'', timestamp = exampleNow, agent_type = None\<rparr>]"
  "suggestions clutteredState = [js ''Where is my order?'']"
  "error clutteredState = Some (js ''Failed to send message. Please try again.'')"
  by (simp_all add: clutteredState_def mounted_fields)

lemma unsupported_fields:
  "recognition unsupportedState = None"
  "isRecording unsupportedState = False"
  by (simp_all add: unsupportedState_def initRecognition_def initSession_def Let_def initialState_def)

lemma recording_fields:
  "recognition recordingState \<noteq> None"
  "isRecording recordingState = True"
  by (simp_all add: recordingState_def mounted_fields)

lemma followUp_fields:
  "isLoading followUpState = False"
  "suggestions followUpState = [js ''Where is my order?'']"
  "error followUpState = Some (js ''Failed to send message. Please try again.'')"
  "messages followUpState = messages clutteredState"
  "inputValue followUpState = js ''And my refund?''"
  by (simp_all add: followUpState_def cluttered_fields clutteredState_def mounted_fields)

lemma followUp_trim: "trim (inputValue followUpState) = js ''And my refund?''"
  by (simp add: followUp_fields trim_def trimStart_def trimEnd_def isWhiteSpace_def js_def)

lemma followUp_not_blank: "\<not> blank (inputValue followUpState)"
  using followUp_trim trim_Nil_iff [of "inputValue followUpState"] by (simp add: js_def)

lemma suggesting_backend:
  "sendMessage backendSuggesting request = Inr suggestingResponse"
  "resp_suggestions suggestingResponse = Some [js ''Anything else?'']"
  "resp_suggestions exampleResponse = None"
  by (simp_all add: sendMessage_def backendSuggesting_def suggestingResponse_def
      exampleResponse_def)

subsection \<open>The lookup of agent styles\<close>

lemmas agentType_defs = sales_def marketing_def technical_support_def order_logistics_def
  customer_service_def orchestrator_def

lemmas style_defs = style_sales_def style_marketing_def style_technical_support_def
  style_order_logistics_def style_customer_service_def style_orchestrator_def

lemma getAgentStyle_known:
  "getAgentStyle (Some sales) = StyleEntry style_sales"
  "getAgentStyle (Some marketing) = StyleEntry style_marketing"
  "getAgentStyle (Some technical_support) = StyleEntry style_technical_support"
  "getAgentStyle (Some order_logistics) = StyleEntry style_order_logistics"
  "getAgentStyle (Some customer_service) = StyleEntry style_customer_service"
  "getAgentStyle (Some orchestrator) = StyleEntry style_orchestrator"
  by (simp_all add: getAgentStyle_def getProperty_def propertyKey_def agentStyles_def
      agentType_defs js_def)

lemma getAgentStyle_absent: "getAgentStyle None = StyleEntry style_customer_service"
  by (simp add: getAgentStyle_def getProperty_def propertyKey_def agentStyles_def
      agentType_defs objectPrototype_def js_def)

lemma map_of_agentStyles_None:
  "t \<notin> set [sales, marketing, technical_support, order_logistics, customer_service, orchestrator]
   \<Longrightarrow> map_of agentStyles t = None"
  by (simp add: agentStyles_def)

lemma getAgentStyle_unrecognized:
  assumes "t \<notin> set [sales, marketing, technical_support, order_logistics, customer_service,
                      orchestrator]"
    and "t \<notin> set objectPrototype"
  shows "getAgentStyle (Some t) = StyleEntry style_customer_service"
  using assms(2) by (simp add: getAgentStyle_def getProperty_def propertyKey_def
      map_of_agentStyles_None [OF assms(1)])

lemma objectPrototype_disjoint:
  "list_all (\<lambda>t. t \<notin> set [sales, marketing, technical_support, order_logistics,
                                  customer_service, orchestrator]) objectPrototype"
  by (simp add: objectPrototype_def agentType_defs js_def)

lemma objectPrototype_not_known:
  "t \<in> set objectPrototype \<Longrightarrow>
   t \<notin> set [sales, marketing, technical_support, order_logistics, customer_service, orchestrator]"
  using objectPrototype_disjoint unfolding list_all_iff by blast

lemma getAgentStyle_inherited:
  assumes "t \<in> set objectPrototype"
  shows "getAgentStyle (Some t) = PrototypeMember t"
  using assms by (simp add: getAgentStyle_def getProperty_def propertyKey_def
      map_of_agentStyles_None [OF objectPrototype_not_known [OF assms]])


section \<open>Sending a message\<close>

text \<open>
  Claim C1. In a state that is not loading and whose input text has a code unit that is not
  white space, a send whose API call resolves appends the user message (role \<open>user\<close>, the
  trimmed input text) and then the assistant message (role \<open>assistant\<close>, the response text
  of the server) to the message list, and nothing else; the API client is called once.
\<close>

theorem send_success_appends:
  assumes "\<not> isLoading st"
    and "\<exists>c \<in> set (inputValue st). \<not> isWhiteSpace c"
    and "sendMessage be (sendRequest st) = Inr resp"
  shows "messages (fst (handleSendMessage be now st)) =
           messages st @
             [\<lparr>role = user, content = trim (inputValue st), timestamp = now, agent_type = None\<rparr>,
              \<lparr>role = assistant, content = response resp, timestamp = resp_timestamp resp,
               agent_type = Some (info_agent_type (agent_info resp))\<rparr>]
         \<and> snd (handleSendMessage be now st) =
             [ApiSendMessage \<lparr>message = trim (inputValue st), session_id = Some (sessionId st),
                              voice_input = None\<rparr>,
              ConsoleLog (js ''Response received:''), InputFocus]"
proof -
  from assms(1,2) have "\<not> sendGuard st"
    by (simp add: sendGuard_iff blank_iff)
  then show ?thesis
    using assms(3)
    by (simp add: handleSendMessage_passed sendSettled_Inr messages_sendPending sendRequest_def
        split: option.split)
qed

theorem send_success_appends_witness:
  "\<not> isLoading exampleState
   \<and> (\<exists>c \<in> set (inputValue exampleState). \<not> isWhiteSpace c)
   \<and> sendMessage backendUp (sendRequest exampleState) = Inr exampleResponse
   \<and> messages (fst (handleSendMessage backendUp exampleNow exampleState)) =
       [\<lparr>role = user, content = js ''Track my order #12345'', timestamp = exampleNow,
         agent_type = None\<rparr>,
        \<lparr>role = assistant, content = js ''Your order has shipped.'',
         timestamp = js ''2024-01-01T00:00:01Z'', agent_type = Some order_logistics\<rparr>]"
proof -
  have h1: "\<not> isLoading exampleState"
    by (simp add: example_fields)
  have h2: "\<exists>c \<in> set (inputValue exampleState). \<not> isWhiteSpace c"
    using example_not_blank by (simp add: blank_iff)
  have h3: "sendMessage backendUp (sendRequest exampleState) = Inr exampleResponse"
    by (simp add: example_backends)
  from send_success_appends [OF h1 h2 h3, of exampleNow] h1 h2 h3 show ?thesis
    by (simp add: trim_example example_fields exampleResponse_def)
qed

text \<open>
  Claim C2. A send with an empty or blank input text, or in a state that is already loading,
  returns the state as it was (messages, suggestions, error, session identifier and loading
  flag included) and has no effect: the API client is not called.
\<close>

theorem send_rejected_noop:
  assumes "blank (inputValue st) \<or> isLoading st"
  shows "handleSendMessage be now st = (st, [])"
  using assms by (simp add: handleSendMessage_def sendGuard_iff)

theorem send_rejected_noop_witness:
  "blank (inputValue blankState) \<and> \<not> isLoading blankState
   \<and> handleSendMessage backendUp exampleNow blankState = (blankState, [])
   \<and> \<not> blank (inputValue loadingState) \<and> isLoading loadingState
   \<and> handleSendMessage backendUp exampleNow loadingState = (loadingState, [])"
proof -
  have b: "blank (inputValue blankState) \<or> isLoading blankState"
    by (simp add: blankState_blank)
  have l: "blank (inputValue loadingState) \<or> isLoading loadingState"
    by (simp add: loadingState_def)
  have "\<not> isLoading blankState"
    by (simp add: blankState_def mountedState_def initRecognition_def initSession_def Let_def
        initialState_def)
  moreover have "\<not> blank (inputValue loadingState)"
    using example_not_blank by (simp add: loadingState_def)
  moreover have "isLoading loadingState"
    by (simp add: loadingState_def)
  ultimately show ?thesis
    using send_rejected_noop [OF b, of backendUp exampleNow]
      send_rejected_noop [OF l, of backendUp exampleNow] blankState_blank
    by simp
qed

text \<open>
  Claim C3. In a state that is not loading and with an input text that is not blank, a send
  whose API call rejects leaves the message list as it was before the send (the rollback
  removes the user message appended before the call and no other entry) and sets the error
  to the failure message.
\<close>

theorem send_failure_rollback:
  assumes "\<not> isLoading st"
    and "\<not> blank (inputValue st)"
    and "sendMessage be (sendRequest st) = Inl e"
  shows "messages (fst (handleSendMessage be now st)) = messages st
         \<and> length (messages (fst (handleSendMessage be now st))) = length (messages st)
         \<and> error (fst (handleSendMessage be now st)) =
             Some (js ''Failed to send message. Please try again.'')
         \<and> error (fst (handleSendMessage be now st)) \<noteq> None"
proof -
  from assms(1,2) have "\<not> sendGuard st"
    by (simp add: sendGuard_iff)
  then show ?thesis
    using assms(3)
    by (simp add: handleSendMessage_passed sendSettled_Inl messages_sendPending)
qed

theorem send_failure_rollback_witness:
  "\<not> isLoading exampleState \<and> \<not> blank (inputValue exampleState)
   \<and> sendMessage backendDown (sendRequest exampleState) = Inl NetworkError
   \<and> messages (fst (handleSendMessage backendDown exampleNow exampleState)) = []
   \<and> error (fst (handleSendMessage backendDown exampleNow exampleState)) =
       Some (js ''Failed to send message. Please try again.'')"
proof -
  have h1: "\<not> isLoading exampleState"
    by (simp add: example_fields)
  have h3: "sendMessage backendDown (sendRequest exampleState) = Inl NetworkError"
    by (simp add: example_backends)
  from send_failure_rollback [OF h1 example_not_blank h3, of exampleNow] h1 example_not_blank h3
  show ?thesis
    by (simp add: example_fields)
qed

text \<open>
  The \<^verbatim>\<open>finally\<close> block: a send that passes the guard returns, whether the API call
  resolved or rejected, with the loading flag cleared, and the last thing it does is the
  focus request on the text area.
\<close>

lemma send_finally:
  assumes "\<not> blank (inputValue st)" and "\<not> isLoading st"
  shows "\<not> isLoading (fst (handleSendMessage be now st))
         \<and> last (snd (handleSendMessage be now st)) = InputFocus"
proof -
  from assms have g: "\<not> sendGuard st"
    by (simp add: sendGuard_iff)
  show ?thesis
  proof (cases "sendMessage be (sendRequest st)")
    case (Inl e)
    with g show ?thesis
      by (simp add: handleSendMessage_passed sendSettled_Inl)
  next
    case (Inr resp)
    with g show ?thesis
      by (simp add: handleSendMessage_passed sendSettled_Inr split: option.split)
  qed
qed

text \<open>
  The text area is disabled on the page for as long as the page shows the state of the
  pending call, so the focus request of a send is never granted.
\<close>

lemma textareaDisabled_sendPending: "textareaDisabled (sendPending now st)"
  by (simp add: textareaDisabled_def fields_sendPending)

lemma send_focus_not_restored: "\<not> sendFocusRestored be now st"
  by (simp add: sendFocusRestored_def focusGranted_def textareaDisabled_sendPending)

text \<open>
  Claim C5, at the send of "Track my order #12345" from the mounted page. The send passes
  the guard. The loading flag is set while the call is pending and cleared in the state the
  handler returns, and the handler ends with the focus request, whether the backend answers
  or is down. The text area the request reaches is the one rendered for the pending state,
  which is disabled: the focus is not restored, against the claim and against the comment
  of the \<^verbatim>\<open>finally\<close> block ("remove loading state and refocus input").
\<close>

theorem send_focus_request_ignored:
  "\<not> blank (inputValue exampleState) \<and> \<not> isLoading exampleState
   \<and> isLoading (sendPending exampleNow exampleState)
   \<and> textareaDisabled (sendPending exampleNow exampleState)
   \<and> \<not> isLoading (fst (handleSendMessage backendUp exampleNow exampleState))
   \<and> last (snd (handleSendMessage backendUp exampleNow exampleState)) = InputFocus
   \<and> \<not> sendFocusRestored backendUp exampleNow exampleState
   \<and> \<not> isLoading (fst (handleSendMessage backendDown exampleNow exampleState))
   \<and> last (snd (handleSendMessage backendDown exampleNow exampleState)) = InputFocus
   \<and> \<not> sendFocusRestored backendDown exampleNow exampleState"
proof -
  have h: "\<not> isLoading exampleState"
    by (simp add: example_fields)
  from send_finally [OF example_not_blank h, of backendUp exampleNow]
    send_finally [OF example_not_blank h, of backendDown exampleNow]
    example_not_blank h
  show ?thesis
    by (simp add: send_focus_not_restored textareaDisabled_sendPending fields_sendPending)
qed

text \<open>
  Claim C9. After a send whose API call resolves with a response that has no suggestions,
  the suggestions are those of the state before the send; when the response has
  suggestions, they replace the old ones.
\<close>

theorem send_suggestions_frame:
  assumes "\<not> blank (inputValue st)" and "\<not> isLoading st"
    and "sendMessage be (sendRequest st) = Inr resp"
  shows "(resp_suggestions resp = None \<longrightarrow>
            suggestions (fst (handleSendMessage be now st)) = suggestions st)
         \<and> (\<forall>ss. resp_suggestions resp = Some ss \<longrightarrow>
               suggestions (fst (handleSendMessage be now st)) = ss)"
proof -
  from assms(1,2) have "\<not> sendGuard st"
    by (simp add: sendGuard_iff)
  then show ?thesis
    using assms(3)
    by (simp add: handleSendMessage_passed sendSettled_Inr fields_sendPending)
qed

theorem send_suggestions_frame_witness:
  "\<not> blank (inputValue followUpState) \<and> \<not> isLoading followUpState
   \<and> sendMessage backendUp (sendRequest followUpState) = Inr exampleResponse
   \<and> resp_suggestions exampleResponse = None
   \<and> suggestions (fst (handleSendMessage backendUp exampleNow followUpState)) =
       [js ''Where is my order?'']
   \<and> sendMessage backendSuggesting (sendRequest followUpState) = Inr suggestingResponse
   \<and> resp_suggestions suggestingResponse = Some [js ''Anything else?'']
   \<and> suggestions (fst (handleSendMessage backendSuggesting exampleNow followUpState)) =
       [js ''Anything else?'']"
proof -
  have h: "\<not> isLoading followUpState"
    by (simp add: followUp_fields)
  have u: "sendMessage backendUp (sendRequest followUpState) = Inr exampleResponse"
    by (simp add: example_backends)
  have s: "sendMessage backendSuggesting (sendRequest followUpState) = Inr suggestingResponse"
    by (simp add: suggesting_backend)
  from send_suggestions_frame [OF followUp_not_blank h u, of exampleNow]
    send_suggestions_frame [OF followUp_not_blank h s, of exampleNow]
    followUp_not_blank h u s
  show ?thesis
    by (simp add: suggesting_backend followUp_fields)
qed

text \<open>
  Claim C10. A send that passes the guard has cleared the input field and the error in the
  state it leaves while the API call is pending, the continuation starts from that state,
  and when the call rejects the input field is still empty afterwards: the text of the
  message rolled back is not put back.
\<close>

theorem send_clears_input_and_error:
  assumes "\<not> blank (inputValue st)" and "\<not> isLoading st"
  shows "inputValue (sendPending now st) = [] \<and> error (sendPending now st) = None
         \<and> handleSendMessage be now st =
             (fst (sendSettled (sendMessage be (sendRequest st)) (sendPending now st)),
              ApiSendMessage (sendRequest st) #
                snd (sendSettled (sendMessage be (sendRequest st)) (sendPending now st)))
         \<and> (\<forall>e. sendMessage be (sendRequest st) = Inl e \<longrightarrow>
               inputValue (fst (handleSendMessage be now st)) = []
               \<and> inputValue (fst (handleSendMessage be now st)) \<noteq> trim (inputValue st))"
proof -
  from assms have g: "\<not> sendGuard st"
    by (simp add: sendGuard_iff)
  then have "trim (inputValue st) \<noteq> []"
    by (simp add: sendGuard_def)
  with g show ?thesis
    by (auto simp: handleSendMessage_passed sendSettled_Inl fields_sendPending)
qed

theorem send_clears_input_and_error_witness:
  "\<not> blank (inputValue followUpState) \<and> \<not> isLoading followUpState
   \<and> error followUpState \<noteq> None
   \<and> inputValue (sendPending exampleNow followUpState) = []
   \<and> error (sendPending exampleNow followUpState) = None
   \<and> sendMessage backendDown (sendRequest followUpState) = Inl NetworkError
   \<and> inputValue (fst (handleSendMessage backendDown exampleNow followUpState)) = []"
proof -
  have h: "\<not> isLoading followUpState"
    by (simp add: followUp_fields)
  have d: "sendMessage backendDown (sendRequest followUpState) = Inl NetworkError"
    by (simp add: example_backends)
  note r = send_clears_input_and_error [OF followUp_not_blank h, of exampleNow backendDown]
  from r have p: "inputValue (sendPending exampleNow followUpState) = []"
    "error (sendPending exampleNow followUpState) = None"
    by blast+
  from r d have f: "inputValue (fst (handleSendMessage backendDown exampleNow followUpState)) = []"
    by blast
  have "error followUpState \<noteq> None"
    by (simp add: followUp_fields)
  with followUp_not_blank h d p f show ?thesis
    by blast
qed


section \<open>Clearing the conversation\<close>

text \<open>
  Claim C4, as the handler has it. In a state whose session identifier is defined, that is,
  issued by the generator earlier, the handler calls the API client to clear the history of
  that session. When the call resolves, the messages and the suggestions are emptied, the
  error is cleared and the session identifier is replaced by a newly issued one, different
  from the old. When the call rejects, the failure is written to the console and the state
  stays as it was.
\<close>

theorem clear_chat_by_outcome:
  assumes "sessionId st = uuidv4 k" and "k < g"
  shows "(clearConversation be (sessionId st) = Inr () \<longrightarrow>
            handleClearChat be g st =
              (st\<lparr>messages := [], suggestions := [], error := None, sessionId := uuidv4 g\<rparr>,
               [ApiClearConversation (sessionId st),
                ConsoleLog (js ''Chat cleared, new session:'')])
            \<and> sessionId (fst (handleClearChat be g st)) \<noteq> sessionId st)
         \<and> (\<forall>e. clearConversation be (sessionId st) = Inl e \<longrightarrow>
              handleClearChat be g st =
                (st, [ApiClearConversation (sessionId st),
                      ConsoleError (js ''Error clearing chat:'')]))"
proof -
  from assms(1) have defined: "sessionId st \<noteq> []"
    by (simp add: uuidv4_not_Nil)
  from assms have fresh: "uuidv4 g \<noteq> sessionId st"
    using uuidv4_inject [of g k] by auto
  from defined fresh show ?thesis
    by (simp add: handleClearChat_def Let_def)
qed

theorem clear_chat_by_outcome_witness:
  "sessionId clutteredState = uuidv4 0 \<and> (0::nat) < 1
   \<and> clearConversation backendUp (sessionId clutteredState) = Inr ()
   \<and> messages (fst (handleClearChat backendUp 1 clutteredState)) = []
   \<and> suggestions (fst (handleClearChat backendUp 1 clutteredState)) = []
   \<and> error (fst (handleClearChat backendUp 1 clutteredState)) = None
   \<and> sessionId (fst (handleClearChat backendUp 1 clutteredState)) = js ''1''
   \<and> sessionId (fst (handleClearChat backendUp 1 clutteredState)) \<noteq> sessionId clutteredState
   \<and> clearConversation backendDown (sessionId clutteredState) = Inl NetworkError
   \<and> handleClearChat backendDown 1 clutteredState =
       (clutteredState, [ApiClearConversation (js ''0''),
                         ConsoleError (js ''Error clearing chat:'')])"
proof -
  have h: "sessionId clutteredState = uuidv4 0"
    by (simp add: cluttered_fields)
  have l: "(0::nat) < 1"
    by simp
  note up = clear_chat_by_outcome [OF h l, of backendUp]
  note down = clear_chat_by_outcome [OF h l, of backendDown]
  have u: "clearConversation backendUp (sessionId clutteredState) = Inr ()"
    by (simp add: example_backends)
  have d: "clearConversation backendDown (sessionId clutteredState) = Inl NetworkError"
    by (simp add: example_backends)
  from up u have cleared:
    "handleClearChat backendUp 1 clutteredState =
       (clutteredState\<lparr>messages := [], suggestions := [], error := None,
          sessionId := uuidv4 1\<rparr>,
        [ApiClearConversation (sessionId clutteredState),
         ConsoleLog (js ''Chat cleared, new session:'')])"
    and fresh:
    "sessionId (fst (handleClearChat backendUp 1 clutteredState)) \<noteq> sessionId clutteredState"
    by blast+
  from down d have kept:
    "handleClearChat backendDown 1 clutteredState =
       (clutteredState, [ApiClearConversation (sessionId clutteredState),
                         ConsoleError (js ''Error clearing chat:'')])"
    by blast
  from h l u d fresh cleared kept show ?thesis
    by (simp add: cluttered_fields uuidv4_examples)
qed

text \<open>
  The claim as stated promises the reset also when the call rejects. With the backend down,
  the messages, the suggestions, the error and the session identifier all survive the
  handler.
\<close>

theorem clear_chat_failure_counterexample:
  "sessionId clutteredState \<noteq> []
   \<and> clearConversation backendDown (sessionId clutteredState) = Inl NetworkError
   \<and> messages (fst (handleClearChat backendDown 1 clutteredState)) \<noteq> []
   \<and> suggestions (fst (handleClearChat backendDown 1 clutteredState)) \<noteq> []
   \<and> error (fst (handleClearChat backendDown 1 clutteredState)) \<noteq> None
   \<and> sessionId (fst (handleClearChat backendDown 1 clutteredState)) =
       sessionId clutteredState"
  by (simp add: handleClearChat_def example_backends cluttered_fields uuidv4_not_Nil)


section \<open>Selecting a suggestion\<close>

text \<open>
  Claim C6. Selecting a suggestion sets the input field to the text of the suggestion and
  changes no other field of the state (messages, suggestions, loading flag, error and
  session identifier among them); its only effect is the focus request on the text area, so
  the API client is not called.
\<close>

theorem suggestion_click_sets_input_only:
  "fst (handleSuggestionClick suggestion st) = st\<lparr>inputValue := suggestion\<rparr>
   \<and> inputValue (fst (handleSuggestionClick suggestion st)) = suggestion
   \<and> messages (fst (handleSuggestionClick suggestion st)) = messages st
   \<and> suggestions (fst (handleSuggestionClick suggestion st)) = suggestions st
   \<and> isLoading (fst (handleSuggestionClick suggestion st)) = isLoading st
   \<and> error (fst (handleSuggestionClick suggestion st)) = error st
   \<and> sessionId (fst (handleSuggestionClick suggestion st)) = sessionId st
   \<and> snd (handleSuggestionClick suggestion st) = [InputFocus]"
  by (simp add: handleSuggestionClick_def)


section \<open>Toggling the voice capture\<close>

text \<open>
  Claim C7, as the handler has it. Without a recognition device the handler sets the error
  to the message that voice recognition is not supported, calls nothing and leaves the
  recording flag alone. With a device and the flag set, it stops the capture and clears the
  flag. With a device and the flag clear, it clears the error, sets the flag and starts the
  capture; when starting throws, the flag is cleared again and the error is set to the
  message that voice recognition failed to start.
\<close>

theorem voice_input_cases:
  "(recognition st = None \<longrightarrow>
      handleVoiceInput startThrows st =
        (st\<lparr>error := Some (js (''Voice recognition is not supported in your browser. '' @
                                ''Please use Chrome, Edge, or Safari.''))\<rparr>, [])
      \<and> isRecording (fst (handleVoiceInput startThrows st)) = isRecording st)
   \<and> (recognition st \<noteq> None \<and> isRecording st \<longrightarrow>
        handleVoiceInput startThrows st = (st\<lparr>isRecording := False\<rparr>, [RecognitionStop]))
   \<and> (recognition st \<noteq> None \<and> \<not> isRecording st \<and> \<not> startThrows \<longrightarrow>
        handleVoiceInput startThrows st =
          (st\<lparr>error := None, isRecording := True\<rparr>, [RecognitionStart]))
   \<and> (recognition st \<noteq> None \<and> \<not> isRecording st \<and> startThrows \<longrightarrow>
        handleVoiceInput startThrows st =
          (st\<lparr>isRecording := False,
              error := Some (js ''Failed to start voice recognition. Please try again.'')\<rparr>,
           [RecognitionStart, ConsoleError (js ''Error starting recognition:'')]))"
  by (cases "recognition st") (simp_all add: handleVoiceInput_def Let_def)

theorem voice_input_cases_witness:
  "recognition unsupportedState = None
   \<and> fst (handleVoiceInput False unsupportedState) =
       unsupportedState\<lparr>error := Some (js (''Voice recognition is not supported in your browser. '' @
                                ''Please use Chrome, Edge, or Safari.''))\<rparr>
   \<and> snd (handleVoiceInput False unsupportedState) = []
   \<and> recognition recordingState \<noteq> None \<and> isRecording recordingState
   \<and> handleVoiceInput False recordingState =
        (recordingState\<lparr>isRecording := False\<rparr>, [RecognitionStop])
   \<and> recognition mountedState \<noteq> None \<and> \<not> isRecording mountedState
   \<and> handleVoiceInput False mountedState =
        (mountedState\<lparr>error := None, isRecording := True\<rparr>, [RecognitionStart])
   \<and> handleVoiceInput True mountedState =
        (mountedState\<lparr>isRecording := False,
            error := Some (js ''Failed to start voice recognition. Please try again.'')\<rparr>,
         [RecognitionStart, ConsoleError (js ''Error starting recognition:'')])"
  using voice_input_cases [of unsupportedState False] voice_input_cases [of recordingState False]
    voice_input_cases [of mountedState False] voice_input_cases [of mountedState True]
  by (simp add: unsupported_fields recording_fields mounted_fields)

text \<open>
  The claim as stated has the flag toggled whenever a device is there. When starting the
  capture throws, the flag is what it was before the handler ran.
\<close>

theorem voice_start_failure_counterexample:
  "recognition mountedState \<noteq> None
   \<and> isRecording (fst (handleVoiceInput True mountedState)) = isRecording mountedState"
  by (simp add: handleVoiceInput_def Let_def mounted_fields)


section \<open>The style of an agent\<close>

text \<open>
  The lookup on the declared agent types and around them. Each of the six known agent types
  gets its own icon, class name and label; an absent agent type, and an unrecognized one
  that is not the name of a member inherited from \<^verbatim>\<open>Object.prototype\<close>, gets the customer
  service style; the name of an inherited member gets that member.
\<close>

lemma agent_style_lookup:
  "getAgentStyle (Some (js ''sales'')) =
     StyleEntry \<lparr>icon = [0xD83D, 0xDED2], className = js ''sales'', label = js ''Sales''\<rparr>
   \<and> getAgentStyle (Some (js ''marketing'')) =
     StyleEntry \<lparr>icon = [0xD83C, 0xDFAF], className = js ''marketing'', label = js ''Marketing''\<rparr>
   \<and> getAgentStyle (Some (js ''technical_support'')) =
     StyleEntry \<lparr>icon = [0xD83D, 0xDD27], className = js ''technicalSupport'',
                 label = js ''Tech Support''\<rparr>
   \<and> getAgentStyle (Some (js ''order_logistics'')) =
     StyleEntry \<lparr>icon = [0xD83D, 0xDCE6], className = js ''orderLogistics'', label = js ''Orders''\<rparr>
   \<and> getAgentStyle (Some (js ''customer_service'')) =
     StyleEntry \<lparr>icon = [0xD83D, 0xDCAC], className = js ''customerService'',
                 label = js ''Customer Service''\<rparr>
   \<and> getAgentStyle (Some (js ''orchestrator'')) =
     StyleEntry \<lparr>icon = [0xD83C, 0xDFAD], className = js ''orchestrator'', label = js ''System''\<rparr>
   \<and> getAgentStyle None = StyleEntry style_customer_service
   \<and> (t \<notin> set [sales, marketing, technical_support, order_logistics, customer_service,
                   orchestrator]
        \<and> t \<notin> set objectPrototype \<longrightarrow>
      getAgentStyle (Some t) = StyleEntry style_customer_service)
   \<and> (t \<in> set objectPrototype \<longrightarrow> getAgentStyle (Some t) = PrototypeMember t)"
  using getAgentStyle_known getAgentStyle_absent getAgentStyle_unrecognized [of t]
    getAgentStyle_inherited [of t]
  by (simp add: agentType_defs style_defs)

lemma agent_style_unrecognized_example:
  "getAgentStyle (Some (js ''billing'')) = StyleEntry style_customer_service"
proof -
  have a: "js ''billing'' \<notin> set [sales, marketing, technical_support, order_logistics,
      customer_service, orchestrator]"
    by (simp add: agentType_defs js_def)
  have b: "js ''billing'' \<notin> set objectPrototype"
    by (simp add: objectPrototype_def js_def)
  from agent_style_lookup [of "js ''billing''"] a b show ?thesis
    by blast
qed

text \<open>
  Claim C8, at the agent type "constructor". The string is none of the six known agent
  types, so the claim gives it the customer service style. The lookup finds the constructor
  that the object literal inherits, a function, which is truthy: the fallback after
  \<^verbatim>\<open>||\<close> is not taken, and the renderer gets a value that has no icon, class name or
  label.
\<close>

theorem agent_style_inherited_member:
  "js ''constructor'' \<notin> set [sales, marketing, technical_support, order_logistics,
                              customer_service, orchestrator]
   \<and> getAgentStyle (Some (js ''constructor'')) = PrototypeMember (js ''constructor'')
   \<and> getAgentStyle (Some (js ''constructor'')) \<noteq> StyleEntry style_customer_service"
  by (simp add: getAgentStyle_def getProperty_def propertyKey_def agentStyles_def
      agentType_defs objectPrototype_def js_def)

end
